theory Spec2Isabelle
  imports Main
begin

section \<open>Go strings\<close>

text \<open>
  A Go string is a byte sequence, modelled as \<open>string\<close>. The functions below are the
  functions of Go's package \<open>strings\<close> that the file manager calls, with the meaning the
  standard library documents. \<open>Split\<close> is given a one-byte separator, as at every call
  in the sources (\<open>"/"\<close> and \<open>":"\<close>); it never returns the empty list:
  \<open>strings.Split("", "/")\<close> is the one-element list holding the empty string.
\<close>

definition Trim :: "string \<Rightarrow> string \<Rightarrow> string" where
  "Trim s cutset =
     rev (dropWhile (\<lambda>c. c \<in> set cutset) (rev (dropWhile (\<lambda>c. c \<in> set cutset) s)))"

definition TrimRight :: "string \<Rightarrow> string \<Rightarrow> string" where
  "TrimRight s cutset = rev (dropWhile (\<lambda>c. c \<in> set cutset) (rev s))"

definition HasPrefix :: "string \<Rightarrow> string \<Rightarrow> bool" where
  "HasPrefix s p = (take (length p) s = p)"

definition TrimPrefix :: "string \<Rightarrow> string \<Rightarrow> string" where
  "TrimPrefix s p = (if HasPrefix s p then drop (length p) s else s)"

fun Contains :: "string \<Rightarrow> string \<Rightarrow> bool" where
  "Contains [] sub = (sub = [])"
| "Contains (c # s) sub = (HasPrefix (c # s) sub \<or> Contains s sub)"

fun Split :: "string \<Rightarrow> char \<Rightarrow> string list" where
  "Split [] sep = [[]]"
| "Split (c # s) sep =
     (if c = sep then [] # Split s sep
      else (case Split s sep of
              [] \<Rightarrow> [[c]]
            | p # ps \<Rightarrow> (c # p) # ps))"

fun Join :: "string list \<Rightarrow> string \<Rightarrow> string" where
  "Join [] sep = []"
| "Join [p] sep = p"
| "Join (p # q # ps) sep = p @ sep @ Join (q # ps) sep"

section \<open>Repository locator (helper.go)\<close>

text \<open>
  \<open>extractProjectNameAndRepoName\<close>: the path is trimmed of \<open>/\<close> and split on \<open>/\<close>; the
  first part is the project, the last part gives the repository name. The branches on
  the number of colon-separated parts are those of the source, in its order: more than
  two parts are joined with \<open>-\<close> without the last, exactly one part is kept, and
  anything else (two parts) gives the empty name.
\<close>

definition extractProjectNameAndRepoName :: "string \<Rightarrow> string \<times> string" where
  "extractProjectNameAndRepoName repoPathURI =
     (let mainParts = Split (Trim repoPathURI ''/'') (CHR ''/'') in
      if length mainParts = 0 then ('''', '''')
      else
        let projectName = mainParts ! 0;
            lastMainPart = mainParts ! (length mainParts - 1)
        in if \<not> Contains lastMainPart '':'' then (projectName, lastMainPart)
           else
             let subParts = Split lastMainPart (CHR '':'');
                 repoName =
                   (if length subParts > 2 then Join (take (length subParts - 1) subParts) ''-''
                    else if length subParts = 1 then subParts ! 0
                    else '''')
             in (projectName, repoName))"

text \<open>
  \<open>url.Parse\<close> belongs to Go's standard library, not to the repository: the locator takes
  it as the parameter \<open>urlParse\<close>, which answers an error message or the parsed URL. Of
  the parsed URL the code reads \<open>Hostname()\<close> and \<open>Path\<close>.
\<close>

record URL =
  Hostname :: string
  Path :: string

type_synonym urlParser = "string \<Rightarrow> string + URL"

definition extractHostnameAndPathFromURL ::
    "urlParser \<Rightarrow> string \<Rightarrow> string + (string \<times> string)" where
  "extractHostnameAndPathFromURL urlParse inputURL0 =
     (let inputURL = Trim inputURL0 '' '' in
      if \<not> HasPrefix inputURL ''http'' then
        (let inputURLArray = Split inputURL (CHR ''/'') in
         Inr (inputURLArray ! 0, TrimPrefix inputURL (inputURLArray ! 0)))
      else
        (case urlParse inputURL of
           Inl err \<Rightarrow> Inl err
         | Inr parsedURL \<Rightarrow> Inr (Hostname parsedURL, Path parsedURL)))"

text \<open>
  \<open>parseHarborURL\<close>: the only error it can return is the one of
  \<open>extractHostnameAndPathFromURL\<close>. The second \<open>if err != nil\<close> of the source tests the
  same variable again after \<open>extractProjectNameAndRepoName\<close>, which returns no error, so
  it is never taken.
\<close>

definition parseHarborURL ::
    "urlParser \<Rightarrow> string \<Rightarrow> string + (string \<times> string \<times> string)" where
  "parseHarborURL urlParse harborRepoURL =
     (case extractHostnameAndPathFromURL urlParse harborRepoURL of
        Inl err \<Rightarrow> Inl err
      | Inr (harborHostname, uriPath) \<Rightarrow>
          (let (projectName, repoName) = extractProjectNameAndRepoName uriPath
           in Inr (harborHostname, projectName, repoName)))"

text \<open>
  Two URL parsers for concrete runs: one that rejects every input, and one that answers
  what Go's \<open>url.Parse\<close> answers for a reference that has neither a scheme nor an
  authority part, an empty host and the whole input as the path.
\<close>

definition rejectingParser :: urlParser where
  "rejectingParser s = Inl ''invalid URL''"

definition pathOnlyParser :: urlParser where
  "pathOnlyParser s = Inr \<lparr> Hostname = '''', Path = s \<rparr>"

section \<open>Registry catalog client\<close>

text \<open>
  Of the registry's \<open>Artifact\<close> record the client reads \<open>ID\<close> and \<open>Digest\<close>; the times
  and the size are kept beside them, the other JSON fields are not modelled. \<open>ID\<close> is a
  Go \<open>int\<close>; it is only compared, so it is an \<open>int\<close> here.
\<close>

record Artifact =
  Digest :: string
  ID :: int
  PushTime :: string
  PullTime :: string
  Size :: int

text \<open>
  The HTTP stack (\<open>http.NewRequest\<close>, \<open>SetBasicAuth\<close>, \<open>client.Do\<close> and the JSON
  decoding of the body into a list of artifacts) is the collaborator \<open>harborAPI\<close>. It is
  handed the GET request the source assembles: the values that \<open>fmt.Sprintf\<close> writes
  into the request URL (\<open>harborReqURL\<close> gives the rendered URL) and the basic-auth
  credentials. It answers an error message (the request could not be built or sent) or
  the response: its status code, and its body decoded (\<open>Inr\<close>) or the decoding error
  (\<open>Inl\<close>). Beside its result, \<open>GetArtifactsByPage\<close> returns the requests it handed to
  the HTTP stack.
\<close>

record artifactsRequest =
  reqBaseURL :: string
  reqProject :: string
  reqRepo :: string
  reqPageSize :: int
  reqPage :: int
  reqUser :: string
  reqPassword :: string

record httpResponse =
  StatusCode :: int
  Body :: "string + Artifact list"

type_synonym harborAPI = "artifactsRequest \<Rightarrow> string + httpResponse"

definition digitChar :: "nat \<Rightarrow> char" where
  "digitChar d = ''0123456789'' ! d"

fun showNat :: "nat \<Rightarrow> string" where
  "showNat n = (if n < 10 then [digitChar n] else showNat (n div 10) @ [digitChar (n mod 10)])"

declare showNat.simps [simp del]

definition showInt :: "int \<Rightarrow> string" where
  "showInt i = (if i < 0 then CHR ''-'' # showNat (nat (- i)) else showNat (nat i))"

definition harborReqURL :: "artifactsRequest \<Rightarrow> string" where
  "harborReqURL req =
     reqBaseURL req @ ''/api/v2.0/projects/'' @ reqProject req @ ''/repositories/'' @ reqRepo req
       @ ''/artifacts?with_tag=false&with_scan_overview=true&with_label=true&with_accessory=false&page_size=''
       @ showInt (reqPageSize req) @ ''&page='' @ showInt (reqPage req)"

text \<open>
  \<open>GetArtifactsByPage\<close>: a status other than 200 is an error (the second test of the
  status in the source repeats the first and is never taken).
\<close>

definition GetArtifactsByPage ::
    "harborAPI \<Rightarrow> string \<Rightarrow> string \<Rightarrow> string \<Rightarrow> string \<Rightarrow> string \<Rightarrow> int \<Rightarrow> int
       \<Rightarrow> (string + Artifact list) \<times> artifactsRequest list" where
  "GetArtifactsByPage api baseHarborUrl projectName repoName harborUserName harborUserPassword
       pageSize page =
     (let req = \<lparr> reqBaseURL = TrimRight baseHarborUrl ''/'', reqProject = projectName,
                  reqRepo = repoName, reqPageSize = pageSize, reqPage = page,
                  reqUser = harborUserName, reqPassword = harborUserPassword \<rparr>
      in (case api req of
            Inl err \<Rightarrow> Inl err
          | Inr resp \<Rightarrow>
              if StatusCode resp \<noteq> 200
              then Inl (''failed to delete repo. Status code: '' @ showInt (StatusCode resp)
                        @ '', project name: '' @ projectName @ '', repo name: '' @ repoName)
              else (case Body resp of
                      Inl err \<Rightarrow> Inl err
                    | Inr artifacts \<Rightarrow> Inr artifacts),
          [req]))"

text \<open>
  The loop of \<open>GetLatestArtifactDigest\<close> over the returned artifacts, with the pair
  \<open>(maxID, maxDigest)\<close> as its state; the source starts it at \<open>(-1, "")\<close>.
\<close>

fun scanMaxID :: "int \<times> string \<Rightarrow> Artifact list \<Rightarrow> int \<times> string" where
  "scanMaxID (maxID, maxDigest) [] = (maxID, maxDigest)"
| "scanMaxID (maxID, maxDigest) (artifact # rest) =
     (if ID artifact > maxID then scanMaxID (ID artifact, Digest artifact) rest
      else scanMaxID (maxID, maxDigest) rest)"

definition GetLatestArtifactDigest ::
    "harborAPI \<Rightarrow> string \<Rightarrow> string \<Rightarrow> string \<Rightarrow> string \<Rightarrow> string
       \<Rightarrow> (string + string) \<times> artifactsRequest list" where
  "GetLatestArtifactDigest api baseHarborUrl projectName repoName harborUserName harborUserPassword =
     (case GetArtifactsByPage api baseHarborUrl projectName repoName harborUserName
             harborUserPassword 1 1 of
        (Inl err, reqs) \<Rightarrow> (Inl err, reqs)
      | (Inr artifacts, reqs) \<Rightarrow>
          if length artifacts = 0 then (Inr '''', reqs)
          else (Inr (snd (scanMaxID (- 1, '''') artifacts)), reqs))"

text \<open>
  A registry that honours the paging parameters, for running the client on a concrete
  repository: \<open>arts\<close> is the repository's artifact listing in the registry's order, and
  page \<open>k\<close> of size \<open>n\<close> holds the entries \<open>(k - 1) * n\<close> up to \<open>k * n - 1\<close> of it.
\<close>

definition harborPage :: "Artifact list \<Rightarrow> harborAPI" where
  "harborPage arts req =
     Inr \<lparr> StatusCode = 200,
           Body = Inr (take (nat (reqPageSize req))
                         (drop (nat ((reqPage req - 1) * reqPageSize req)) arts)) \<rparr>"

text \<open>An artifact with the given id and digest, for concrete listings.\<close>

definition artifactOf :: "int \<Rightarrow> string \<Rightarrow> Artifact" where
  "artifactOf i d = \<lparr> Digest = d, ID = i, PushTime = [], PullTime = [], Size = 0 \<rparr>"

section \<open>The file-manager singleton (manager.go)\<close>

text \<open>
  The package variables \<open>fmanager\<close> (a pointer, \<open>nil\<close> at start) and \<open>fmOnce\<close> (a
  \<open>sync.Once\<close>, here the flag that it has run) are the process state. Calls are taken one
  after the other. A pointer is an \<open>option\<close>: \<open>None\<close> is \<open>nil\<close>; the configuration is
  held by value.
\<close>

record FmConfig =
  HarborUserName :: string
  HarborUserPassword :: string
  RootCacheDir :: string

record fileManager =
  hifConf :: "FmConfig option"

record process =
  fmanager :: "fileManager option"
  fmOnce :: bool

definition initialProcess :: process where
  "initialProcess = \<lparr> fmanager = None, fmOnce = False \<rparr>"

definition SimpleNewOnce ::
    "string \<Rightarrow> string \<Rightarrow> string \<Rightarrow> process \<Rightarrow> fileManager option \<times> process" where
  "SimpleNewOnce harborUserName harborUserPassword rootCacheDir p =
     (let p' = (if fmOnce p then p
                else p \<lparr> fmanager :=
                           Some \<lparr> hifConf = Some \<lparr> HarborUserName = harborUserName,
                                                    HarborUserPassword = harborUserPassword,
                                                    RootCacheDir = rootCacheDir \<rparr> \<rparr>,
                         fmOnce := True \<rparr>)
      in (fmanager p', p'))"

definition NewOnce :: "FmConfig option \<Rightarrow> process \<Rightarrow> fileManager option \<times> process" where
  "NewOnce config p =
     (let p' = (if fmOnce p then p
                else p \<lparr> fmanager := Some \<lparr> hifConf = config \<rparr>, fmOnce := True \<rparr>)
      in (fmanager p', p'))"

datatype constructorCall =
    CallSimpleNewOnce string string string
  | CallNewOnce "FmConfig option"

fun runCall :: "constructorCall \<Rightarrow> process \<Rightarrow> fileManager option \<times> process" where
  "runCall (CallSimpleNewOnce u pw dir) p = SimpleNewOnce u pw dir p"
| "runCall (CallNewOnce config) p = NewOnce config p"

text \<open>The managers returned by a sequence of constructor calls, in order.\<close>

fun runCalls :: "constructorCall list \<Rightarrow> process \<Rightarrow> fileManager option list" where
  "runCalls [] p = []"
| "runCalls (c # cs) p = (case runCall c p of (m, p') \<Rightarrow> m # runCalls cs p')"

text \<open>The manager a call builds when it is the one that runs the initialisation.\<close>

fun managerOf :: "constructorCall \<Rightarrow> fileManager" where
  "managerOf (CallSimpleNewOnce u pw dir) =
     \<lparr> hifConf = Some \<lparr> HarborUserName = u, HarborUserPassword = pw, RootCacheDir = dir \<rparr> \<rparr>"
| "managerOf (CallNewOnce config) = \<lparr> hifConf = config \<rparr>"

section \<open>The registry transport\<close>

text \<open>
  The image transport (package \<open>containers/image\<close>), the registry behind it and the
  local file system are not code of the repository. They are modelled by the state
  \<open>world\<close> and the operations of this section, as far as the file manager observes them.
  The credentials and the cache directory of the manager are handed on to the transport
  and are used for nothing else; a failure they cause is a failing call of the world, and
  they are not arguments of the operations.

  A manifest is a JSON document. The file manager decodes it into a
  \<open>map[string]interface{}\<close>, changes the map and encodes it again, so a JSON object is a
  map from keys to documents, and the registry holds the document itself: encoding
  followed by decoding is the identity on documents.
\<close>

datatype json =
    JNull
  | JBool bool
  | JNum int
  | JStr string
  | JArr "json list"
  | JObj "string \<Rightarrow> json option"

text \<open>
  An error of Go is its message; a run-time panic is kept apart from the errors a
  function returns.
\<close>

datatype error = Error string | Panic string

text \<open>
  An image reference of the \<open>docker://\<close> transport: a repository name and a tag.
  \<open>ParseImageName\<close> reads the tag after the colon of the last path segment; a name
  without a tag refers to the tag \<open>latest\<close>, as the transport documents. (Digest
  references and the validation of the characters of a name are left out.)
\<close>

datatype imageRef = DockerRef string string

definition ParseImageName :: "string \<Rightarrow> string + imageRef" where
  "ParseImageName imgName =
     (if \<not> HasPrefix imgName ''docker://''
      then Inl (''Invalid image name '' @ imgName @ '', unknown transport'')
      else
        let rest = TrimPrefix imgName ''docker://'';
            segments = Split rest (CHR ''/'');
            parts = Split (last segments) (CHR '':'')
        in if length parts = 1 \<and> rest \<noteq> '''' then Inr (DockerRef rest ''latest'')
           else if length parts = 2 \<and> parts ! 0 \<noteq> '''' \<and> parts ! 1 \<noteq> ''''
           then Inr (DockerRef (take (length rest - (length (parts ! 1) + 1)) rest) (parts ! 1))
           else Inl (''invalid reference format''))"

text \<open>
  The calls into the transport and the file system that can fail. The field \<open>fault\<close> of
  the world says which of them fail, and with which message; the other fields are the
  manifests of the registry by reference, the blobs of each repository, the local files
  (a file is known by the digest and the size of its content), the image layouts on the
  local disk (a directory and the manifest it holds), and the log of the images that
  \<open>copy.Image\<close> was asked to push.
\<close>

datatype call =
    CallNewImageSource imageRef
  | CallGetManifest imageRef
  | CallNewImageDestination imageRef
  | CallPutBlob imageRef
  | CallPutManifest imageRef
  | CallNewReference string
  | CallCopyImage string imageRef
  | CallStat string
  | CallCreateLayout string

record localFile =
  contentDigest :: string
  contentSize :: int

record world =
  manifests :: "imageRef \<Rightarrow> json option"
  blobs :: "(string \<times> string) set"
  files :: "string \<Rightarrow> localFile option"
  layouts :: "string \<Rightarrow> json option"
  fault :: "call \<Rightarrow> string option"
  copyLog :: "imageRef list"

record blobInfo =
  blobDigest :: string
  blobSize :: int

record imageSource =
  sourceRef :: imageRef
  sourceManifest :: json

text \<open>
  Opening an image source loads the manifest of the reference. A reference the registry
  does not hold is answered with the registry's \<open>not found\<close> error.
\<close>

definition notFoundMessage :: "imageRef \<Rightarrow> string" where
  "notFoundMessage ref =
     (case ref of DockerRef name tag \<Rightarrow>
        ''reading manifest '' @ tag @ '' in '' @ name @ '': unknown: artifact '' @ name @ '':''
          @ tag @ '' not found'')"

definition NewImageSource :: "world \<Rightarrow> imageRef \<Rightarrow> string + imageSource" where
  "NewImageSource w ref =
     (case fault w (CallNewImageSource ref) of
        Some msg \<Rightarrow> Inl msg
      | None \<Rightarrow>
          (case manifests w ref of
             None \<Rightarrow> Inl (notFoundMessage ref)
           | Some m \<Rightarrow> Inr \<lparr> sourceRef = ref, sourceManifest = m \<rparr>))"

definition GetManifest :: "world \<Rightarrow> imageSource \<Rightarrow> string + json" where
  "GetManifest w src =
     (case fault w (CallGetManifest (sourceRef src)) of
        Some msg \<Rightarrow> Inl msg
      | None \<Rightarrow> Inr (sourceManifest src))"

definition NewImageDestination :: "world \<Rightarrow> imageRef \<Rightarrow> string + imageRef" where
  "NewImageDestination w ref =
     (case fault w (CallNewImageDestination ref) of
        Some msg \<Rightarrow> Inl msg
      | None \<Rightarrow> Inr ref)"

definition PutBlob :: "world \<Rightarrow> imageRef \<Rightarrow> localFile \<Rightarrow> string + (blobInfo \<times> world)" where
  "PutBlob w dest file =
     (case fault w (CallPutBlob dest) of
        Some msg \<Rightarrow> Inl msg
      | None \<Rightarrow>
          (case dest of DockerRef name tag \<Rightarrow>
             Inr (\<lparr> blobDigest = contentDigest file, blobSize = contentSize file \<rparr>,
                  w \<lparr> blobs := insert (name, contentDigest file) (blobs w) \<rparr>)))"

definition PutManifest :: "world \<Rightarrow> imageRef \<Rightarrow> json \<Rightarrow> string + world" where
  "PutManifest w dest m =
     (case fault w (CallPutManifest dest) of
        Some msg \<Rightarrow> Inl msg
      | None \<Rightarrow> Inr (w \<lparr> manifests := (manifests w)(dest \<mapsto> m) \<rparr>))"

text \<open>
  \<open>copy.Image\<close> from a local layout directory to a registry reference: the attempt is
  logged, also when it fails; when it succeeds the registry holds the manifest of the
  layout under the reference.
\<close>

definition copyImage :: "world \<Rightarrow> imageRef \<Rightarrow> string \<Rightarrow> string option \<times> world" where
  "copyImage w dest dir =
     (let w1 = w \<lparr> copyLog := copyLog w @ [dest] \<rparr> in
      case fault w (CallCopyImage dir dest) of
        Some msg \<Rightarrow> (Some msg, w1)
      | None \<Rightarrow>
          (case layouts w dir of
             None \<Rightarrow> (Some (''open '' @ dir @ ''/manifest.json: no such file or directory''), w1)
           | Some m \<Rightarrow> (None, w1 \<lparr> manifests := (manifests w1)(dest \<mapsto> m) \<rparr>)))"

text \<open>
  \<open>json.Unmarshal\<close> into a \<open>map[string]interface{}\<close>: an object gives its map, \<open>null\<close>
  leaves the map \<open>nil\<close> (\<open>None\<close>) without an error, any other document is an error.
\<close>

definition Unmarshal :: "json \<Rightarrow> string + (string \<Rightarrow> json option) option" where
  "Unmarshal doc =
     (case doc of
        JObj m \<Rightarrow> Inr (Some m)
      | JNull \<Rightarrow> Inr None
      | _ \<Rightarrow> Inl ''json: cannot unmarshal into Go value of type map[string]interface {}'')"

text \<open>
  A world in which the registry holds nothing, no call fails and the local files are
  \<open>fs\<close>; and the field \<open>layers\<close> of the manifest that the registry holds for a
  reference.
\<close>

definition freshWorld :: "(string \<Rightarrow> localFile option) \<Rightarrow> world" where
  "freshWorld fs =
     \<lparr> manifests = Map.empty, blobs = {}, files = fs, layouts = Map.empty,
       fault = (\<lambda>c. None), copyLog = [] \<rparr>"

definition layersOf :: "world \<Rightarrow> imageRef \<Rightarrow> json option" where
  "layersOf w ref = (case manifests w ref of Some (JObj m) \<Rightarrow> m ''layers'' | _ \<Rightarrow> None)"

section \<open>Repository bootstrap (helper.go, manager.go)\<close>

text \<open>
  \<open>createOCIImageLayout\<close> writes a layout whose manifest names the placeholder
  configuration blob and has an empty layer list. \<open>configDigest\<close> is the SHA-256 of the
  66 bytes of \<open>configContent\<close> in the source. The directory and file operations of the
  function fail together (\<open>CallCreateLayout\<close>); what a failed run leaves on the disk is
  not followed.
\<close>

definition configDigest :: string where
  "configDigest = ''8e96d17ea7416bb3da7857f4ec24be3f4fa3909f53d1ebbdf6f6231341a49efa''"

definition bootstrapManifest :: json where
  "bootstrapManifest =
     JObj [''schemaVersion'' \<mapsto> JNum 2,
           ''mediaType'' \<mapsto> JStr ''application/vnd.docker.distribution.manifest.v2+json'',
           ''config'' \<mapsto>
              JObj [''mediaType'' \<mapsto> JStr ''application/vnd.oci.image.config.v1+json'',
                    ''digest'' \<mapsto> JStr (''sha256:'' @ configDigest),
                    ''size'' \<mapsto> JNum 66],
           ''layers'' \<mapsto> JArr []]"

definition createOCIImageLayout :: "world \<Rightarrow> string \<Rightarrow> error option \<times> world" where
  "createOCIImageLayout w ociImageDir =
     (case fault w (CallCreateLayout ociImageDir) of
        Some msg \<Rightarrow> (Some (Error msg), w)
      | None \<Rightarrow> (None, w \<lparr> layouts := (layouts w)(ociImageDir \<mapsto> bootstrapManifest) \<rparr>))"

text \<open>
  \<open>checkRemoteRepoExists\<close> opens an image source for \<open>docker://harborRepo\<close>: the
  reference is built from the repository address alone.
\<close>

definition checkRemoteRepoExists :: "world \<Rightarrow> string \<Rightarrow> error + bool" where
  "checkRemoteRepoExists w harborRepo =
     (let harborImage = ''docker://'' @ harborRepo in
      case ParseImageName harborImage of
        Inl msg \<Rightarrow>
          Inl (Error (''error checkRemoteRepoExists call alltransports.ParseImageName: '' @ msg))
      | Inr refCtx \<Rightarrow>
          (case NewImageSource w refCtx of
             Inl msg \<Rightarrow>
               if Contains msg ''not found'' then Inr False
               else Inl (Error (''error checkRemoteRepoExists call checkRemoteRepoExists NewImageSource: ''
                                @ msg))
           | Inr src \<Rightarrow> Inr True))"

text \<open>
  \<open>uploadLocalImageToHarbor\<close> pushes the layout to \<open>docker://harborRepo:harborTag\<close>.
  The signature policy is built from a constant that is a valid policy, so its two
  error branches are not reachable and are left out.
\<close>

definition uploadLocalImageToHarbor ::
    "world \<Rightarrow> string \<Rightarrow> string \<Rightarrow> string \<Rightarrow> error option \<times> world" where
  "uploadLocalImageToHarbor w imageDirectory harborRepo harborTag =
     (let harborImage = ''docker://'' @ harborRepo @ '':'' @ harborTag in
      case ParseImageName harborImage of
        Inl msg \<Rightarrow>
          (Some (Error (''error uploadLocalImageToHarbor call alltransports.ParseImageName: '' @ msg)), w)
      | Inr destCtx \<Rightarrow>
          (case fault w (CallNewReference imageDirectory) of
             Some msg \<Rightarrow>
               (Some (Error (''error uploadLocalImageToHarbor call directory.NewReference: '' @ msg)), w)
           | None \<Rightarrow>
               (case copyImage w destCtx imageDirectory of
                  (Some msg, w') \<Rightarrow>
                    (Some (Error (''error uploadLocalImageToHarbor copy.Image: '' @ msg)), w')
                | (None, w') \<Rightarrow> (None, w'))))"

definition CreateRepositoryIfNotExist :: "world \<Rightarrow> string \<Rightarrow> string \<Rightarrow> error option \<times> world" where
  "CreateRepositoryIfNotExist w harborRepo tag =
     (case checkRemoteRepoExists w harborRepo of
        Inl err \<Rightarrow> (Some err, w)
      | Inr exists \<Rightarrow>
          if \<not> exists then
            (let ociImageName = snd (extractProjectNameAndRepoName harborRepo);
                 ociImageDir = ''/tmp/'' @ ociImageName
             in case createOCIImageLayout w ociImageDir of
                  (Some err, w1) \<Rightarrow> (Some err, w1)
                | (None, w1) \<Rightarrow> uploadLocalImageToHarbor w1 ociImageDir harborRepo tag)
          else (None, w))"

section \<open>Manifest synchronizer and latest layer (manager.go)\<close>

text \<open>
  \<open>updateManifest\<close>: the manifest of the reference is fetched and decoded, the new layer
  entry is put into the field \<open>layers\<close> with Go's \<open>append\<close> (after the entries already
  there) or, when the field is not an array, as a new one-element array, and the
  document is pushed back. Writing the field into a \<open>nil\<close> map is a run-time panic.
\<close>

definition newLayerEntry :: "blobInfo \<Rightarrow> int \<Rightarrow> json" where
  "newLayerEntry blob fileSize =
     JObj [''mediaType'' \<mapsto> JStr ''application/vnd.oci.image.layer.v1.tar+gzip'',
           ''digest'' \<mapsto> JStr (blobDigest blob),
           ''size'' \<mapsto> JNum fileSize]"

definition updateManifest ::
    "world \<Rightarrow> imageRef \<Rightarrow> blobInfo \<Rightarrow> imageRef \<Rightarrow> int \<Rightarrow> error option \<times> world" where
  "updateManifest w imageRef blob destImg fileSize =
     (case NewImageSource w imageRef of
        Inl msg \<Rightarrow> (Some (Error msg), w)
      | Inr imageSource \<Rightarrow>
          (case GetManifest w imageSource of
             Inl msg \<Rightarrow> (Some (Error msg), w)
           | Inr originalManifest \<Rightarrow>
               (case Unmarshal originalManifest of
                  Inl msg \<Rightarrow> (Some (Error msg), w)
                | Inr None \<Rightarrow> (Some (Panic ''assignment to entry in nil map''), w)
                | Inr (Some manifest) \<Rightarrow>
                    (let newLayer = newLayerEntry blob fileSize;
                         updated =
                           (case manifest ''layers'' of
                              Some (JArr layers) \<Rightarrow> manifest(''layers'' \<mapsto> JArr (layers @ [newLayer]))
                            | _ \<Rightarrow> manifest(''layers'' \<mapsto> JArr [newLayer]))
                     in case PutManifest w destImg (JObj updated) of
                          Inl msg \<Rightarrow> (Some (Error msg), w)
                        | Inr w' \<Rightarrow> (None, w')))))"

definition UploadFile ::
    "world \<Rightarrow> string \<Rightarrow> string \<Rightarrow> string \<Rightarrow> (error + blobInfo) \<times> world" where
  "UploadFile w localFilePath harborRepo tag =
     (case files w localFilePath of
        None \<Rightarrow> (Inl (Error (''open '' @ localFilePath @ '': no such file or directory'')), w)
      | Some localFile \<Rightarrow>
          (let destRef = harborRepo @ '':'' @ tag in
           case ParseImageName (''docker://'' @ destRef) of
             Inl msg \<Rightarrow> (Inl (Error msg), w)
           | Inr imageRef \<Rightarrow>
               (case NewImageDestination w imageRef of
                  Inl msg \<Rightarrow> (Inl (Error msg), w)
                | Inr destImg \<Rightarrow>
                    (case fault w (CallStat localFilePath) of
                       Some msg \<Rightarrow> (Inl (Error msg), w)
                     | None \<Rightarrow>
                         (let fileSize = contentSize localFile in
                          case PutBlob w destImg localFile of
                            Inl msg \<Rightarrow> (Inl (Error msg), w)
                          | Inr (blob, w1) \<Rightarrow>
                              (case updateManifest w1 imageRef blob destImg fileSize of
                                 (Some err, w2) \<Rightarrow> (Inl err, w2)
                               | (None, w2) \<Rightarrow> (Inr blob, w2)))))))"

text \<open>
  \<open>getLatestLayerDigest\<close> reads the digest of the element at index 0 of \<open>layers\<close>.
  Reading a key of a \<open>nil\<close> map gives no value, so a \<open>null\<close> manifest has no layers.
\<close>

definition getLatestLayerDigest :: "world \<Rightarrow> imageSource \<Rightarrow> error + string" where
  "getLatestLayerDigest w srcImg =
     (case GetManifest w srcImg of
        Inl msg \<Rightarrow> Inl (Error msg)
      | Inr originalManifest \<Rightarrow>
          (case Unmarshal originalManifest of
             Inl msg \<Rightarrow> Inl (Error msg)
           | Inr manifestData \<Rightarrow>
               (case (case manifestData of None \<Rightarrow> None | Some m \<Rightarrow> m ''layers'') of
                  Some (JArr layers) \<Rightarrow>
                    if length layers = 0
                    then Inl (Error ''no layers field found or it is not an array'')
                    else
                      (case layers ! 0 of
                         JObj layerData \<Rightarrow>
                           (case layerData ''digest'' of
                              Some (JStr digestStr) \<Rightarrow> Inr digestStr
                            | _ \<Rightarrow> Inl (Error ''no digest field found in layer at index 0''))
                       | _ \<Rightarrow> Inl (Error ''invalid layer data at index 0''))
                | _ \<Rightarrow> Inl (Error ''no layers field found or it is not an array''))))"

definition GetLatestLayerDigest :: "world \<Rightarrow> string \<Rightarrow> string \<Rightarrow> error + string" where
  "GetLatestLayerDigest w harborRepo tag =
     (case ParseImageName (''docker://'' @ harborRepo @ '':'' @ tag) of
        Inl msg \<Rightarrow> Inl (Error msg)
      | Inr srcRef \<Rightarrow>
          (case NewImageSource w srcRef of
             Inl msg \<Rightarrow> Inl (Error msg)
           | Inr srcImg \<Rightarrow> getLatestLayerDigest w srcImg))"

text \<open>
  A sequence of uploads to one address and tag, each on the world the one before has
  left: the final world when all of them succeed, \<open>None\<close> as soon as one fails.
\<close>

fun uploadAll :: "world \<Rightarrow> string list \<Rightarrow> string \<Rightarrow> string \<Rightarrow> world option" where
  "uploadAll w [] harborRepo tag = Some w"
| "uploadAll w (localFilePath # rest) harborRepo tag =
     (case UploadFile w localFilePath harborRepo tag of
        (Inl err, w') \<Rightarrow> None
      | (Inr blob, w') \<Rightarrow> uploadAll w' rest harborRepo tag)"

text \<open>Two local files, of 200 and of 50 bytes, for concrete runs.\<close>

definition twoFiles :: "string \<Rightarrow> localFile option" where
  "twoFiles = [''/data/fileA'' \<mapsto> \<lparr> contentDigest = ''sha256:aaaa'', contentSize = 200 \<rparr>,
               ''/data/fileB'' \<mapsto> \<lparr> contentDigest = ''sha256:bbbb'', contentSize = 50 \<rparr>]"

section \<open>Facts about the string functions\<close>

lemma Split_not_Nil: "Split s sep \<noteq> []"
  by (induction s) (auto split: list.splits)

lemma Split_length: "length (Split s sep) = Suc (length (filter (\<lambda>c. c = sep) s))"
  by (induction s) (auto split: list.splits simp: Split_not_Nil)

lemma Split_first: "Split s sep ! 0 = takeWhile (\<lambda>c. c \<noteq> sep) s"
  by (induction s) (auto split: list.splits simp: Split_not_Nil)

lemma Contains_single: "Contains s [c] = (c \<in> set s)"
  by (induction s) (auto simp: HasPrefix_def)

lemma Contains_append_right: "Contains s sub \<Longrightarrow> Contains (t @ s) sub"
  by (induction t) auto

lemma TrimPrefix_first_token:
  "TrimPrefix s (takeWhile (\<lambda>c. c \<noteq> sep) s) = dropWhile (\<lambda>c. c \<noteq> sep) s"
proof -
  have "takeWhile (\<lambda>c. c \<noteq> sep) s @ dropWhile (\<lambda>c. c \<noteq> sep) s = s"
    by simp
  then have "take (length (takeWhile (\<lambda>c. c \<noteq> sep) s)) s = takeWhile (\<lambda>c. c \<noteq> sep) s"
     and "drop (length (takeWhile (\<lambda>c. c \<noteq> sep) s)) s = dropWhile (\<lambda>c. c \<noteq> sep) s"
    by (metis append_eq_conv_conj)+
  then show ?thesis by (simp add: TrimPrefix_def HasPrefix_def)
qed

section \<open>The repository locator\<close>

text \<open>
  The repository name as a function of the last path segment: the segment itself when
  it has no colon, the parts before the last colon joined with \<open>-\<close> when it has two
  colons or more, and the empty name when it has exactly one colon.
\<close>

lemma extract_last_part:
  "extractProjectNameAndRepoName p =
     (let mainParts = Split (Trim p ''/'') (CHR ''/''); lastMainPart = last mainParts in
      (hd mainParts,
       if CHR '':'' \<notin> set lastMainPart then lastMainPart
       else if length (filter (\<lambda>c. c = CHR '':'') lastMainPart) > 1
            then Join (butlast (Split lastMainPart (CHR '':''))) ''-''
            else ''''))"
proof -
  define mp where "mp = Split (Trim p ''/'') (CHR ''/'')"
  have ne: "mp \<noteq> []" by (simp add: mp_def Split_not_Nil)
  have l: "mp ! (length mp - Suc 0) = last mp" using ne by (simp add: last_conv_nth)
  have h: "mp ! 0 = hd mp" using ne by (simp add: hd_conv_nth)
  have b: "take (length (filter (\<lambda>c. c = sep) seg)) (Split seg sep) = butlast (Split seg sep)"
    for seg sep
    by (simp add: butlast_conv_take Split_length)
  have one: "length (filter (\<lambda>c. c = CHR '':'') (last mp)) \<noteq> 0" if "CHR '':'' \<in> set (last mp)"
    using that by (simp add: filter_empty_conv)
  show ?thesis
    unfolding extractProjectNameAndRepoName_def Let_def mp_def [symmetric]
    using ne one by (simp add: l h b Contains_single Split_length)
qed

lemma extract_no_colon:
  assumes "CHR '':'' \<notin> set (last (Split (Trim p ''/'') (CHR ''/'')))"
  shows "snd (extractProjectNameAndRepoName p) = last (Split (Trim p ''/'') (CHR ''/''))"
  using assms by (simp add: extract_last_part Let_def)

lemma extract_empty_path:
  assumes "Trim p ''/'' = ''''"
  shows "extractProjectNameAndRepoName p = ('''', '''')"
  using assms by (simp add: extract_last_part)

lemma extract_host_no_http_prefix:
  assumes "\<not> HasPrefix (Trim a '' '') ''http''"
  shows "extractHostnameAndPathFromURL urlParse a =
           Inr (takeWhile (\<lambda>c. c \<noteq> CHR ''/'') (Trim a '' ''),
                dropWhile (\<lambda>c. c \<noteq> CHR ''/'') (Trim a '' ''))"
  using assms
  by (simp add: extractHostnameAndPathFromURL_def Let_def Split_first TrimPrefix_first_token)

text \<open>
  Claim C2. The claim is that a final path segment without a colon is returned unchanged
  as the repository name, and that for a final segment with exactly one colon the part
  before the colon is the repository name. The first half holds (\<open>extract_no_colon\<close>).
  The second half does not: a segment with exactly one colon splits into two parts, the
  source joins the leading parts only when there are more than two, and the name it
  returns is empty. The theorem states this for every path whose last segment has exactly
  one colon; for \<open>/vmimages/ubuntu:22.04\<close> the claim expects \<open>ubuntu\<close>.
\<close>

theorem extract_one_colon_empty:
  assumes "length (filter (\<lambda>c. c = CHR '':'') (last (Split (Trim p ''/'') (CHR ''/'')))) = 1"
  shows "snd (extractProjectNameAndRepoName p) = ''''"
proof -
  let ?seg = "last (Split (Trim p ''/'') (CHR ''/''))"
  from assms have "filter (\<lambda>c. c = CHR '':'') ?seg \<noteq> []" by auto
  then have "CHR '':'' \<in> set ?seg"
    by (simp add: filter_empty_conv)
  with assms show ?thesis
    by (simp add: extract_last_part Let_def)
qed

theorem extract_one_colon_empty_witness:
  "length (filter (\<lambda>c. c = CHR '':'')
       (last (Split (Trim ''/vmimages/ubuntu:22.04'' ''/'') (CHR ''/'')))) = 1
   \<and> snd (extractProjectNameAndRepoName ''/vmimages/ubuntu:22.04'') = ''''"
proof -
  have h: "length (filter (\<lambda>c. c = CHR '':'')
             (last (Split (Trim ''/vmimages/ubuntu:22.04'' ''/'') (CHR ''/'')))) = 1"
    by (simp add: Trim_def)
  from h extract_one_colon_empty [OF h] show ?thesis by simp
qed

text \<open>
  Claim C3, as stated: an address whose path part is empty, and an address whose
  decomposition gives an empty repository name, are rejected with an error. Neither is:
  \<open>hub.example.com\<close> has an empty path and \<open>hub.example.com/vmimages/ubuntu:22.04\<close>
  decomposes to an empty repository name, and both are returned as results. (Neither
  input begins with \<open>http\<close>, so the URL parser is not consulted; the one used here
  rejects every input.)
\<close>

theorem parseHarborURL_accepts_empty_names_counterexample:
  "parseHarborURL rejectingParser ''hub.example.com'' = Inr (''hub.example.com'', '''', '''')
   \<and> parseHarborURL rejectingParser ''hub.example.com/vmimages/ubuntu:22.04''
       = Inr (''hub.example.com'', ''vmimages'', '''')"
  by (simp add: parseHarborURL_def extractHostnameAndPathFromURL_def
      extractProjectNameAndRepoName_def Trim_def HasPrefix_def TrimPrefix_def)

text \<open>
  Claim C3, amended: whenever the address splits into a hostname and a path, the parse
  returns successfully with the project and repository name of the path, empty or not;
  for an empty path (empty once its slashes are trimmed) both names are empty; and the
  parse returns an error only for an input that begins with \<open>http\<close> and that the URL
  parser rejects, the error being the parser's.
\<close>

theorem parseHarborURL_only_urlParse_fails:
  "(extractHostnameAndPathFromURL urlParse a = Inr (h, p) \<longrightarrow>
      parseHarborURL urlParse a =
        Inr (h, fst (extractProjectNameAndRepoName p), snd (extractProjectNameAndRepoName p)))
   \<and> (extractHostnameAndPathFromURL urlParse a = Inr (h, p) \<and> Trim p ''/'' = '''' \<longrightarrow>
      parseHarborURL urlParse a = Inr (h, '''', ''''))
   \<and> (parseHarborURL urlParse a = Inl e \<longrightarrow>
      HasPrefix (Trim a '' '') ''http'' \<and> urlParse (Trim a '' '') = Inl e)"
proof (intro conjI impI)
  assume "extractHostnameAndPathFromURL urlParse a = Inr (h, p)"
  then show "parseHarborURL urlParse a =
        Inr (h, fst (extractProjectNameAndRepoName p), snd (extractProjectNameAndRepoName p))"
    by (simp add: parseHarborURL_def split_beta)
next
  assume "extractHostnameAndPathFromURL urlParse a = Inr (h, p) \<and> Trim p ''/'' = ''''"
  then show "parseHarborURL urlParse a = Inr (h, '''', '''')"
    by (simp add: parseHarborURL_def extract_empty_path)
next
  assume e: "parseHarborURL urlParse a = Inl e"
  then have x: "extractHostnameAndPathFromURL urlParse a = Inl e"
    by (auto simp: parseHarborURL_def split_beta split: sum.splits)
  then show "HasPrefix (Trim a '' '') ''http''"
    by (auto simp: extractHostnameAndPathFromURL_def Let_def split: if_splits)
  with x show "urlParse (Trim a '' '') = Inl e"
    by (auto simp: extractHostnameAndPathFromURL_def Let_def split: sum.splits)
qed

theorem parseHarborURL_only_urlParse_fails_witness:
  "extractHostnameAndPathFromURL rejectingParser ''hub.example.com/''
     = Inr (''hub.example.com'', ''/'')
   \<and> Trim ''/'' ''/'' = ''''
   \<and> parseHarborURL rejectingParser ''hub.example.com/'' = Inr (''hub.example.com'', '''', '''')
   \<and> parseHarborURL rejectingParser ''http://hub.example.com/%zz''
       = Inl ''invalid URL''
   \<and> HasPrefix (Trim ''http://hub.example.com/%zz'' '' '') ''http''"
proof -
  have h1: "extractHostnameAndPathFromURL rejectingParser ''hub.example.com/''
              = Inr (''hub.example.com'', ''/'')"
    by (simp add: extractHostnameAndPathFromURL_def Trim_def HasPrefix_def TrimPrefix_def)
  have h2: "Trim ''/'' ''/'' = ''''"
    by (simp add: Trim_def)
  have h3: "parseHarborURL rejectingParser ''http://hub.example.com/%zz''
              = Inl ''invalid URL''"
    by (simp add: parseHarborURL_def extractHostnameAndPathFromURL_def Trim_def HasPrefix_def
        rejectingParser_def)
  from parseHarborURL_only_urlParse_fails
         [of rejectingParser "''hub.example.com/''" "''hub.example.com''" "''/''"]
       parseHarborURL_only_urlParse_fails
         [of rejectingParser "''http://hub.example.com/%zz''" _ _
             "''invalid URL''"]
       h1 h2 h3
  show ?thesis by blast
qed

text \<open>
  Claim C8. The claim is that an address without an \<open>http\<close>/\<open>https\<close> scheme has its first
  \<open>/\<close>-delimited token taken as the hostname and the rest as the path, and that only
  addresses with such a scheme are parsed as URLs. The source tests whether the input
  begins with the four characters \<open>http\<close>, not whether it has a scheme. An address that
  does not begin with them is split as claimed (\<open>extract_host_no_http_prefix\<close>). But
  \<open>httpbin.example.com/vmimages/disk.img\<close> has no scheme and begins with \<open>http\<close>: it is
  handed to the URL parser and the result is the parser's, where the claim expects the
  hostname \<open>httpbin.example.com\<close> and the path \<open>/vmimages/disk.img\<close>. For a reference
  without a scheme and without \<open>//\<close>, Go's parser answers an empty hostname and the whole
  input as the path; with that answer the hostname returned is empty and the project is
  \<open>httpbin.example.com\<close>.
\<close>

theorem http_prefixed_host_is_url_parsed:
  "extractHostnameAndPathFromURL urlParse ''httpbin.example.com/vmimages/disk.img'' =
     (case urlParse ''httpbin.example.com/vmimages/disk.img'' of
        Inl err \<Rightarrow> Inl err
      | Inr u \<Rightarrow> Inr (Hostname u, Path u))
   \<and> extractHostnameAndPathFromURL pathOnlyParser
         ''httpbin.example.com/vmimages/disk.img''
       = Inr ('''', ''httpbin.example.com/vmimages/disk.img'')
   \<and> parseHarborURL pathOnlyParser
         ''httpbin.example.com/vmimages/disk.img''
       = Inr ('''', ''httpbin.example.com'', ''disk.img'')"
  by (simp add: parseHarborURL_def extractProjectNameAndRepoName_def
      extractHostnameAndPathFromURL_def Trim_def HasPrefix_def pathOnlyParser_def)

section \<open>The registry catalog client\<close>

lemma GetArtifactsByPage_requests:
  "snd (GetArtifactsByPage api b p r u pw n k) =
     [\<lparr> reqBaseURL = TrimRight b ''/'', reqProject = p, reqRepo = r, reqPageSize = n,
         reqPage = k, reqUser = u, reqPassword = pw \<rparr>]"
  by (simp add: GetArtifactsByPage_def Let_def)

lemma GetLatestArtifactDigest_requests:
  "snd (GetLatestArtifactDigest api b p r u pw) = snd (GetArtifactsByPage api b p r u pw 1 1)"
  by (cases "GetArtifactsByPage api b p r u pw 1 1")
     (auto simp: GetLatestArtifactDigest_def split: sum.splits)

lemma GetLatestArtifactDigest_result:
  "fst (GetLatestArtifactDigest api b p r u pw) =
     (case fst (GetArtifactsByPage api b p r u pw 1 1) of
        Inl err \<Rightarrow> Inl err
      | Inr arts \<Rightarrow> if arts = [] then Inr '''' else Inr (snd (scanMaxID (- 1, '''') arts)))"
  by (cases "GetArtifactsByPage api b p r u pw 1 1")
     (auto simp: GetLatestArtifactDigest_def split: sum.splits)

lemma harborPage_first:
  "fst (GetArtifactsByPage (harborPage (a # rest)) b p r u pw 1 1) = Inr [a]"
  by (simp add: GetArtifactsByPage_def harborPage_def)

lemma page_request_URL:
  "map harborReqURL (snd (GetLatestArtifactDigest api ''https://hub.example.com/'' ''vmimages''
                            ''disk'' u pw)) =
     [''https://hub.example.com/api/v2.0/projects/vmimages/repositories/disk/artifacts?with_tag=false&with_scan_overview=true&with_label=true&with_accessory=false&page_size=1&page=1'']"
  by (simp add: GetLatestArtifactDigest_requests GetArtifactsByPage_requests harborReqURL_def
      TrimRight_def showInt_def showNat.simps digitChar_def)

text \<open>The scan keeps its state when no artifact has a larger id, and otherwise ends at
  an artifact of the list whose id is the largest.\<close>

lemma scanMaxID_keeps:
  "\<forall>a \<in> set arts. ID a \<le> m \<Longrightarrow> scanMaxID (m, d) arts = (m, d)"
  by (induction arts arbitrary: m d) auto

lemma scanMaxID_picks:
  assumes "\<exists>a \<in> set arts. ID a > m"
  shows "\<exists>a \<in> set arts. scanMaxID (m, d) arts = (ID a, Digest a)
                      \<and> (\<forall>a' \<in> set arts. ID a' \<le> ID a)"
  using assms
proof (induction arts arbitrary: m d)
  case Nil
  then show ?case by simp
next
  case (Cons x xs)
  show ?case
  proof (cases "ID x > m")
    case True
    show ?thesis
    proof (cases "\<exists>a \<in> set xs. ID a > ID x")
      case True
      from Cons.IH [OF True, of "Digest x"]
      obtain a where a: "a \<in> set xs" "scanMaxID (ID x, Digest x) xs = (ID a, Digest a)"
        "\<forall>a' \<in> set xs. ID a' \<le> ID a" by blast
      from True a(3) have "ID x \<le> ID a" by force
      with a \<open>ID x > m\<close> show ?thesis by auto
    next
      case False
      then have "scanMaxID (ID x, Digest x) xs = (ID x, Digest x)"
        by (intro scanMaxID_keeps) force
      with False \<open>ID x > m\<close> show ?thesis by force
    qed
  next
    case False
    with Cons.prems have ex: "\<exists>a \<in> set xs. ID a > m" by auto
    from Cons.IH [OF ex, of d]
    obtain a where a: "a \<in> set xs" "scanMaxID (m, d) xs = (ID a, Digest a)"
      "\<forall>a' \<in> set xs. ID a' \<le> ID a" by blast
    from ex a(3) have "m < ID a" by force
    with a False show ?thesis by force
  qed
qed

text \<open>
  Claim C4. When the artifact listing of the repository comes back empty,
  \<open>GetLatestArtifactDigest\<close> returns the empty digest and no error.
\<close>

theorem empty_listing_gives_empty_digest:
  assumes "fst (GetArtifactsByPage api b p r u pw 1 1) = Inr []"
  shows "fst (GetLatestArtifactDigest api b p r u pw) = Inr ''''"
  using assms by (simp add: GetLatestArtifactDigest_result)

theorem empty_listing_gives_empty_digest_witness:
  "fst (GetArtifactsByPage (harborPage []) ''https://hub.example.com/'' ''vmimages'' ''disk''
          ''admin'' ''secret'' 1 1) = Inr []
   \<and> fst (GetLatestArtifactDigest (harborPage []) ''https://hub.example.com/'' ''vmimages'' ''disk''
          ''admin'' ''secret'') = Inr ''''"
proof -
  have h: "fst (GetArtifactsByPage (harborPage []) ''https://hub.example.com/'' ''vmimages''
                  ''disk'' ''admin'' ''secret'' 1 1) = Inr []"
    by (simp add: GetArtifactsByPage_def harborPage_def)
  from h empty_listing_gives_empty_digest [OF h] show ?thesis by simp
qed

text \<open>
  Claim C5, as stated: one page of size 1 is requested, the digest of the largest id on
  that page is returned, and in particular a repository with the artifacts of ids 3, 7
  and 5 gives the digest of id 7. A registry that honours the page size returns the first
  artifact of its listing only, so for the listing 3, 7, 5 the result is the digest of
  id 3.
\<close>

theorem page_of_one_hides_larger_ids_counterexample:
  "fst (GetLatestArtifactDigest
          (harborPage [artifactOf 3 ''sha256:0003'', artifactOf 7 ''sha256:0007'',
                       artifactOf 5 ''sha256:0005''])
          ''https://hub.example.com'' ''vmimages'' ''disk'' ''admin'' ''secret'')
     = Inr ''sha256:0003''
   \<and> fst (GetLatestArtifactDigest
          (harborPage [artifactOf 3 ''sha256:0003'', artifactOf 7 ''sha256:0007'',
                       artifactOf 5 ''sha256:0005''])
          ''https://hub.example.com'' ''vmimages'' ''disk'' ''admin'' ''secret'')
     \<noteq> Inr ''sha256:0007''"
  by (simp add: GetLatestArtifactDigest_result harborPage_first artifactOf_def)

text \<open>
  Claim C5, amended: \<open>GetLatestArtifactDigest\<close> hands exactly one request to the HTTP
  stack, for page 1 with page size 1; when the page that comes back holds an artifact
  with an id above -1, the result is the digest of an artifact of that page whose id is
  the largest of the page; and against a registry that honours the page size the page is
  the first artifact of the registry's listing, whose digest is returned (the empty
  digest if its id is not above -1), whatever the ids of the artifacts listed after it.
\<close>

theorem latest_artifact_of_the_page:
  "snd (GetLatestArtifactDigest api b p r u pw) =
     [\<lparr> reqBaseURL = TrimRight b ''/'', reqProject = p, reqRepo = r, reqPageSize = 1,
         reqPage = 1, reqUser = u, reqPassword = pw \<rparr>]
   \<and> (fst (GetArtifactsByPage api b p r u pw 1 1) = Inr arts \<and> (\<exists>a \<in> set arts. ID a > - 1) \<longrightarrow>
        (\<exists>a \<in> set arts. fst (GetLatestArtifactDigest api b p r u pw) = Inr (Digest a)
                          \<and> (\<forall>a' \<in> set arts. ID a' \<le> ID a)))
   \<and> fst (GetLatestArtifactDigest (harborPage (first # rest)) b p r u pw) =
        Inr (if ID first > - 1 then Digest first else '''')"
proof (intro conjI impI)
  show "snd (GetLatestArtifactDigest api b p r u pw) =
     [\<lparr> reqBaseURL = TrimRight b ''/'', reqProject = p, reqRepo = r, reqPageSize = 1,
         reqPage = 1, reqUser = u, reqPassword = pw \<rparr>]"
    by (simp add: GetLatestArtifactDigest_requests GetArtifactsByPage_requests)
next
  assume h: "fst (GetArtifactsByPage api b p r u pw 1 1) = Inr arts
               \<and> (\<exists>a \<in> set arts. ID a > - 1)"
  then have ne: "arts \<noteq> []" by auto
  from h scanMaxID_picks [of arts "- 1" "''''"]
  obtain a where a: "a \<in> set arts" "scanMaxID (- 1, '''') arts = (ID a, Digest a)"
    "\<forall>a' \<in> set arts. ID a' \<le> ID a" by blast
  from h ne a(2) have "fst (GetLatestArtifactDigest api b p r u pw) = Inr (Digest a)"
    by (simp add: GetLatestArtifactDigest_result)
  with a show "\<exists>a \<in> set arts. fst (GetLatestArtifactDigest api b p r u pw) = Inr (Digest a)
                          \<and> (\<forall>a' \<in> set arts. ID a' \<le> ID a)" by blast
next
  show "fst (GetLatestArtifactDigest (harborPage (first # rest)) b p r u pw) =
        Inr (if ID first > - 1 then Digest first else '''')"
    by (simp add: GetLatestArtifactDigest_result harborPage_first)
qed

text \<open>The witness runs the client against an HTTP stack that answers the three artifacts
  on one page: the hypothesis holds there and the digest of id 7 is returned.\<close>

theorem latest_artifact_of_the_page_witness:
  "fst (GetArtifactsByPage
          (\<lambda>req. Inr \<lparr> StatusCode = 200,
                         Body = Inr [artifactOf 3 ''sha256:0003'', artifactOf 7 ''sha256:0007'',
                                     artifactOf 5 ''sha256:0005''] \<rparr>)
          ''https://hub.example.com'' ''vmimages'' ''disk'' ''admin'' ''secret'' 1 1)
     = Inr [artifactOf 3 ''sha256:0003'', artifactOf 7 ''sha256:0007'', artifactOf 5 ''sha256:0005'']
   \<and> fst (GetLatestArtifactDigest
          (\<lambda>req. Inr \<lparr> StatusCode = 200,
                         Body = Inr [artifactOf 3 ''sha256:0003'', artifactOf 7 ''sha256:0007'',
                                     artifactOf 5 ''sha256:0005''] \<rparr>)
          ''https://hub.example.com'' ''vmimages'' ''disk'' ''admin'' ''secret'')
     = Inr ''sha256:0007''"
proof -
  let ?arts = "[artifactOf 3 ''sha256:0003'', artifactOf 7 ''sha256:0007'',
                artifactOf 5 ''sha256:0005'']"
  let ?api = "\<lambda>req :: artifactsRequest.
                (Inr \<lparr> StatusCode = 200, Body = Inr ?arts \<rparr> :: string + httpResponse)"
  have h: "fst (GetArtifactsByPage ?api ''https://hub.example.com'' ''vmimages'' ''disk''
                  ''admin'' ''secret'' 1 1) = Inr ?arts"
    by (simp add: GetArtifactsByPage_def)
  have e: "\<exists>a \<in> set ?arts. ID a > - 1"
    by (simp add: artifactOf_def)
  from latest_artifact_of_the_page
         [of ?api "''https://hub.example.com''" "''vmimages''" "''disk''" "''admin''"
             "''secret''" ?arts]
       h e
  obtain a where a: "a \<in> set ?arts"
      "fst (GetLatestArtifactDigest ?api ''https://hub.example.com'' ''vmimages'' ''disk''
              ''admin'' ''secret'') = Inr (Digest a)"
      "\<forall>a' \<in> set ?arts. ID a' \<le> ID a"
    by blast
  from a(1,3) have "a = artifactOf 7 ''sha256:0007''"
    by (auto simp: artifactOf_def)
  with a(2) h show ?thesis by (simp add: artifactOf_def)
qed

section \<open>The singleton\<close>

lemma runCall_after_once:
  "fmOnce p \<Longrightarrow> runCall c p = (fmanager p, p)"
  by (cases c) (simp_all add: SimpleNewOnce_def NewOnce_def)

lemma runCalls_after_once:
  "fmOnce p \<Longrightarrow> runCalls cs p = replicate (length cs) (fmanager p)"
  by (induction cs) (simp_all add: runCall_after_once)

lemma runCall_first:
  "runCall c initialProcess =
     (Some (managerOf c), \<lparr> fmanager = Some (managerOf c), fmOnce = True \<rparr>)"
  by (cases c) (simp_all add: SimpleNewOnce_def NewOnce_def initialProcess_def)

text \<open>
  Claim C9. In a fresh process, whatever the sequence of \<open>SimpleNewOnce\<close> and \<open>NewOnce\<close>
  calls, the first call and every call after it return the manager built from the
  arguments of the first call: the arguments of the later calls are ignored, and each
  call returns a manager (there is no error result). By \<open>runCall_after_once\<close> a later
  call leaves the process state as it is.
\<close>

theorem singleton_keeps_first_manager:
  "runCalls (c # cs) initialProcess = replicate (Suc (length cs)) (Some (managerOf c))"
  by (simp add: runCall_first runCalls_after_once)

section \<open>Repository bootstrap\<close>

lemma notFoundMessage_not_found: "Contains (notFoundMessage ref) ''not found''"
proof (cases ref)
  case (DockerRef name tag)
  have "Contains '' not found'' ''not found''"
    by (simp add: HasPrefix_def)
  then have "Contains ((''reading manifest '' @ tag @ '' in '' @ name @ '': unknown: artifact ''
                        @ name @ '':'' @ tag) @ '' not found'') ''not found''"
    by (rule Contains_append_right)
  with DockerRef show ?thesis by (simp add: notFoundMessage_def)
qed

text \<open>
  Claim C6. \<open>checkRemoteRepoExists\<close> answers that the repository does not exist exactly when opening the
  image source fails with a message that contains \<open>not found\<close>. When opening fails with
  any other message, \<open>CreateRepositoryIfNotExist\<close> returns that message, wrapped, as its
  error; and whatever error the existence check returns (that of parsing the reference
  included), \<open>CreateRepositoryIfNotExist\<close> returns it and leaves the world as it was, the
  log of pushes included: no bootstrap push is attempted. A push is attempted only when
  the existence check has answered that the repository does not exist.
\<close>

theorem not_found_decides_nonexistence:
  "(checkRemoteRepoExists w repo = Inr False \<longleftrightarrow>
      (\<exists>ref msg. ParseImageName (''docker://'' @ repo) = Inr ref
                 \<and> NewImageSource w ref = Inl msg \<and> Contains msg ''not found''))
   \<and> (\<forall>ref msg. ParseImageName (''docker://'' @ repo) = Inr ref
                 \<and> NewImageSource w ref = Inl msg \<and> \<not> Contains msg ''not found'' \<longrightarrow>
         CreateRepositoryIfNotExist w repo tag =
           (Some (Error (''error checkRemoteRepoExists call checkRemoteRepoExists NewImageSource: ''
                         @ msg)), w))
   \<and> (\<forall>err. checkRemoteRepoExists w repo = Inl err \<longrightarrow>
         CreateRepositoryIfNotExist w repo tag = (Some err, w))
   \<and> (copyLog (snd (CreateRepositoryIfNotExist w repo tag)) \<noteq> copyLog w \<longrightarrow>
         checkRemoteRepoExists w repo = Inr False)"
proof (intro conjI allI impI)
  show "checkRemoteRepoExists w repo = Inr False \<longleftrightarrow>
      (\<exists>ref msg. ParseImageName (''docker://'' @ repo) = Inr ref
                 \<and> NewImageSource w ref = Inl msg \<and> Contains msg ''not found'')"
    by (auto simp: checkRemoteRepoExists_def Let_def split: sum.splits if_splits)
next
  fix ref msg
  assume "ParseImageName (''docker://'' @ repo) = Inr ref
            \<and> NewImageSource w ref = Inl msg \<and> \<not> Contains msg ''not found''"
  then show "CreateRepositoryIfNotExist w repo tag =
           (Some (Error (''error checkRemoteRepoExists call checkRemoteRepoExists NewImageSource: ''
                         @ msg)), w)"
    by (simp add: CreateRepositoryIfNotExist_def checkRemoteRepoExists_def Let_def)
next
  fix err
  assume "checkRemoteRepoExists w repo = Inl err"
  then show "CreateRepositoryIfNotExist w repo tag = (Some err, w)"
    by (simp add: CreateRepositoryIfNotExist_def)
next
  assume "copyLog (snd (CreateRepositoryIfNotExist w repo tag)) \<noteq> copyLog w"
  then show "checkRemoteRepoExists w repo = Inr False"
    by (cases "checkRemoteRepoExists w repo")
       (auto simp: CreateRepositoryIfNotExist_def split: if_splits)
qed

lemma parse_disk:
  "ParseImageName ''docker://hub.example.com/vmimages/disk''
     = Inr (DockerRef ''hub.example.com/vmimages/disk'' ''latest'')"
  by (simp add: ParseImageName_def HasPrefix_def TrimPrefix_def)

lemma parse_disk_v1:
  "ParseImageName ''docker://hub.example.com/vmimages/disk:v1''
     = Inr (DockerRef ''hub.example.com/vmimages/disk'' ''v1'')"
  by (simp add: ParseImageName_def HasPrefix_def TrimPrefix_def)

lemma parse_disk_latest:
  "ParseImageName ''docker://hub.example.com/vmimages/disk:latest''
     = Inr (DockerRef ''hub.example.com/vmimages/disk'' ''latest'')"
  by (simp add: ParseImageName_def HasPrefix_def TrimPrefix_def)

theorem not_found_decides_nonexistence_witness:
  "ParseImageName (''docker://'' @ ''hub.example.com/vmimages/disk'')
     = Inr (DockerRef ''hub.example.com/vmimages/disk'' ''latest'')
   \<and> NewImageSource
         ((freshWorld Map.empty) \<lparr> fault := (\<lambda>c. Some ''unauthorized: authentication required'') \<rparr>)
         (DockerRef ''hub.example.com/vmimages/disk'' ''latest'')
       = Inl ''unauthorized: authentication required''
   \<and> \<not> Contains ''unauthorized: authentication required'' ''not found''
   \<and> CreateRepositoryIfNotExist
         ((freshWorld Map.empty) \<lparr> fault := (\<lambda>c. Some ''unauthorized: authentication required'') \<rparr>)
         ''hub.example.com/vmimages/disk'' ''latest''
       = (Some (Error (''error checkRemoteRepoExists call checkRemoteRepoExists NewImageSource: ''
                       @ ''unauthorized: authentication required'')),
          (freshWorld Map.empty) \<lparr> fault := (\<lambda>c. Some ''unauthorized: authentication required'') \<rparr>)"
proof -
  let ?w = "(freshWorld Map.empty)
              \<lparr> fault := (\<lambda>c. Some ''unauthorized: authentication required'') \<rparr>"
  have p: "ParseImageName (''docker://'' @ ''hub.example.com/vmimages/disk'')
     = Inr (DockerRef ''hub.example.com/vmimages/disk'' ''latest'')"
    using parse_disk by simp
  have n: "NewImageSource ?w (DockerRef ''hub.example.com/vmimages/disk'' ''latest'')
       = Inl ''unauthorized: authentication required''"
    by (simp add: NewImageSource_def)
  have c: "\<not> Contains ''unauthorized: authentication required'' ''not found''"
    by (simp add: HasPrefix_def)
  from not_found_decides_nonexistence [of ?w "''hub.example.com/vmimages/disk''" "''latest''"] p n c
  have "CreateRepositoryIfNotExist ?w ''hub.example.com/vmimages/disk'' ''latest''
       = (Some (Error (''error checkRemoteRepoExists call checkRemoteRepoExists NewImageSource: ''
                       @ ''unauthorized: authentication required'')), ?w)"
    by blast
  with p n c show ?thesis by blast
qed

text \<open>The bootstrap on the address \<open>hub.example.com/vmimages/disk\<close>, in a world where no
  call fails: the existence check looks at the tag \<open>latest\<close>, the push goes to the tag
  given.\<close>

lemma check_fresh:
  "fault w = (\<lambda>c. None) \<Longrightarrow>
   manifests w (DockerRef ''hub.example.com/vmimages/disk'' ''latest'') = None \<Longrightarrow>
   checkRemoteRepoExists w ''hub.example.com/vmimages/disk'' = Inr False"
  using parse_disk
  by (simp add: checkRemoteRepoExists_def NewImageSource_def notFoundMessage_not_found)

lemma extract_disk:
  "snd (extractProjectNameAndRepoName ''hub.example.com/vmimages/disk'') = ''disk''"
  by (simp add: extractProjectNameAndRepoName_def Trim_def HasPrefix_def)

lemma create_v1:
  assumes "fault w = (\<lambda>c. None)"
      and "manifests w (DockerRef ''hub.example.com/vmimages/disk'' ''latest'') = None"
  shows "CreateRepositoryIfNotExist w ''hub.example.com/vmimages/disk'' ''v1'' =
     (None, w \<lparr> layouts := (layouts w)(''/tmp/disk'' \<mapsto> bootstrapManifest),
                copyLog := copyLog w @ [DockerRef ''hub.example.com/vmimages/disk'' ''v1''],
                manifests := (manifests w)(DockerRef ''hub.example.com/vmimages/disk'' ''v1''
                                             \<mapsto> bootstrapManifest) \<rparr>)"
  using assms parse_disk_v1
  by (simp add: CreateRepositoryIfNotExist_def check_fresh extract_disk createOCIImageLayout_def
      uploadLocalImageToHarbor_def copyImage_def Let_def)

lemma create_latest:
  assumes "fault w = (\<lambda>c. None)"
      and "manifests w (DockerRef ''hub.example.com/vmimages/disk'' ''latest'') = None"
  shows "CreateRepositoryIfNotExist w ''hub.example.com/vmimages/disk'' ''latest'' =
     (None, w \<lparr> layouts := (layouts w)(''/tmp/disk'' \<mapsto> bootstrapManifest),
                copyLog := copyLog w @ [DockerRef ''hub.example.com/vmimages/disk'' ''latest''],
                manifests := (manifests w)(DockerRef ''hub.example.com/vmimages/disk'' ''latest''
                                             \<mapsto> bootstrapManifest) \<rparr>)"
  using assms parse_disk_latest
  by (simp add: CreateRepositoryIfNotExist_def check_fresh extract_disk createOCIImageLayout_def
      uploadLocalImageToHarbor_def copyImage_def Let_def)

lemma create_existing:
  assumes "fault w = (\<lambda>c. None)"
      and "manifests w (DockerRef ''hub.example.com/vmimages/disk'' ''latest'') = Some m"
  shows "CreateRepositoryIfNotExist w ''hub.example.com/vmimages/disk'' tag = (None, w)"
  using assms parse_disk
  by (simp add: CreateRepositoryIfNotExist_def checkRemoteRepoExists_def NewImageSource_def)

lemma freshWorld_fields:
  "fault (freshWorld fs) = (\<lambda>c. None)"
  "manifests (freshWorld fs) ref = None"
  "files (freshWorld fs) = fs"
  "copyLog (freshWorld fs) = []"
  by (simp_all add: freshWorld_def)

section \<open>Manifest synchronizer and latest layer\<close>

text \<open>An upload that goes through appends its layer entry after the layers the manifest
  has; the latest-layer query answers the digest of the first layer.\<close>

lemma UploadFile_appends:
  assumes "files w path = Some f"
      and "ParseImageName (''docker://'' @ repo @ '':'' @ tag) = Inr (DockerRef name t)"
      and "fault w = (\<lambda>c. None)"
      and "manifests w (DockerRef name t) = Some (JObj m)"
      and "m ''layers'' = Some (JArr ls)"
  shows "UploadFile w path repo tag =
           (Inr \<lparr> blobDigest = contentDigest f, blobSize = contentSize f \<rparr>,
            w \<lparr> blobs := insert (name, contentDigest f) (blobs w),
                manifests := (manifests w)
                  (DockerRef name t \<mapsto>
                     JObj (m(''layers'' \<mapsto>
                        JArr (ls @ [newLayerEntry
                                      \<lparr> blobDigest = contentDigest f, blobSize = contentSize f \<rparr>
                                      (contentSize f)])))) \<rparr>)"
  using assms
  by (simp add: UploadFile_def NewImageDestination_def PutBlob_def updateManifest_def
      NewImageSource_def GetManifest_def Unmarshal_def PutManifest_def Let_def)

lemma GetLatestLayerDigest_first:
  assumes "ParseImageName (''docker://'' @ repo @ '':'' @ tag) = Inr ref"
      and "fault w = (\<lambda>c. None)"
      and "manifests w ref = Some (JObj m)"
      and "m ''layers'' = Some (JArr (JObj l # rest))"
      and "l ''digest'' = Some (JStr d)"
  shows "GetLatestLayerDigest w repo tag = Inr d"
  using assms
  by (simp add: GetLatestLayerDigest_def getLatestLayerDigest_def NewImageSource_def
      GetManifest_def Unmarshal_def)

lemma upload_disk_latest:
  assumes "files w path = Some f"
      and "fault w = (\<lambda>c. None)"
      and "manifests w (DockerRef ''hub.example.com/vmimages/disk'' ''latest'') = Some (JObj m)"
      and "m ''layers'' = Some (JArr ls)"
  shows "UploadFile w path ''hub.example.com/vmimages/disk'' ''latest'' =
           (Inr \<lparr> blobDigest = contentDigest f, blobSize = contentSize f \<rparr>,
            w \<lparr> blobs := insert (''hub.example.com/vmimages/disk'', contentDigest f) (blobs w),
                manifests := (manifests w)
                  (DockerRef ''hub.example.com/vmimages/disk'' ''latest'' \<mapsto>
                     JObj (m(''layers'' \<mapsto>
                        JArr (ls @ [newLayerEntry
                                      \<lparr> blobDigest = contentDigest f, blobSize = contentSize f \<rparr>
                                      (contentSize f)])))) \<rparr>)"
  using UploadFile_appends [OF assms(1) _ assms(2,3,4),
          of "''hub.example.com/vmimages/disk''" "''latest''"]
        parse_disk_latest
  by simp

lemma upload_disk_v1:
  assumes "files w path = Some f"
      and "fault w = (\<lambda>c. None)"
      and "manifests w (DockerRef ''hub.example.com/vmimages/disk'' ''v1'') = Some (JObj m)"
      and "m ''layers'' = Some (JArr ls)"
  shows "UploadFile w path ''hub.example.com/vmimages/disk'' ''v1'' =
           (Inr \<lparr> blobDigest = contentDigest f, blobSize = contentSize f \<rparr>,
            w \<lparr> blobs := insert (''hub.example.com/vmimages/disk'', contentDigest f) (blobs w),
                manifests := (manifests w)
                  (DockerRef ''hub.example.com/vmimages/disk'' ''v1'' \<mapsto>
                     JObj (m(''layers'' \<mapsto>
                        JArr (ls @ [newLayerEntry
                                      \<lparr> blobDigest = contentDigest f, blobSize = contentSize f \<rparr>
                                      (contentSize f)])))) \<rparr>)"
  using UploadFile_appends [OF assms(1) _ assms(2,3,4),
          of "''hub.example.com/vmimages/disk''" "''v1''"]
        parse_disk_v1
  by simp

lemma latest_disk_latest:
  assumes "fault w = (\<lambda>c. None)"
      and "manifests w (DockerRef ''hub.example.com/vmimages/disk'' ''latest'') = Some (JObj m)"
      and "m ''layers'' = Some (JArr (JObj l # rest))"
      and "l ''digest'' = Some (JStr d)"
  shows "GetLatestLayerDigest w ''hub.example.com/vmimages/disk'' ''latest'' = Inr d"
  using GetLatestLayerDigest_first [OF _ assms, of "''hub.example.com/vmimages/disk''" "''latest''"]
        parse_disk_latest
  by simp

lemma GetLatestLayerDigest_cases:
  assumes "GetLatestLayerDigest w repo tag = Inr d"
  obtains ref m l rest where
    "ParseImageName (''docker://'' @ repo @ '':'' @ tag) = Inr ref"
    "fault w (CallNewImageSource ref) = None"
    "fault w (CallGetManifest ref) = None"
    "manifests w ref = Some (JObj m)"
    "m ''layers'' = Some (JArr (JObj l # rest))"
    "l ''digest'' = Some (JStr d)"
proof -
  from assms obtain ref where p: "ParseImageName (''docker://'' @ repo @ '':'' @ tag) = Inr ref"
    by (auto simp: GetLatestLayerDigest_def split: sum.splits)
  with assms obtain src where
    s: "NewImageSource w ref = Inr src" "getLatestLayerDigest w src = Inr d"
    by (auto simp: GetLatestLayerDigest_def split: sum.splits)
  from s(1) obtain doc where
    d: "fault w (CallNewImageSource ref) = None" "manifests w ref = Some doc"
       "src = \<lparr> sourceRef = ref, sourceManifest = doc \<rparr>"
    by (auto simp: NewImageSource_def split: option.splits)
  from s(2) d(3) have g: "fault w (CallGetManifest ref) = None"
    by (auto simp: getLatestLayerDigest_def GetManifest_def split: option.splits)
  with s(2) d(3) obtain md where u: "Unmarshal doc = Inr md"
    by (auto simp: getLatestLayerDigest_def GetManifest_def split: sum.splits)
  with s(2) d(3) g obtain m where m: "md = Some m"
    by (cases md) (auto simp: getLatestLayerDigest_def GetManifest_def)
  with u have doc: "doc = JObj m"
    by (auto simp: Unmarshal_def split: json.splits)
  from s(2) d(3) g u m obtain ls where ls: "m ''layers'' = Some (JArr ls)" "ls \<noteq> []"
    by (auto simp: getLatestLayerDigest_def GetManifest_def
        split: option.splits json.splits if_splits)
  then obtain x rest where xs: "ls = x # rest" by (cases ls) auto
  from s(2) d(3) g u m ls xs obtain l where l: "x = JObj l" "l ''digest'' = Some (JStr d)"
    by (auto simp: getLatestLayerDigest_def GetManifest_def split: option.splits json.splits)
  from that [OF p d(1) g] d(2) doc ls(1) xs l show thesis by blast
qed

text \<open>Once the latest-layer query has an answer, an upload that succeeds does not
  change it: the query keeps answering the digest of the layer that was first. The same
  holds for any number of uploads (\<open>uploads_keep_latest\<close>).\<close>

lemma upload_keeps_latest:
  assumes "GetLatestLayerDigest w repo tag = Inr d"
      and "UploadFile w path repo tag = (Inr blob, w')"
  shows "GetLatestLayerDigest w' repo tag = Inr d"
proof -
  from assms(1) obtain ref m l rest where g:
    "ParseImageName (''docker://'' @ repo @ '':'' @ tag) = Inr ref"
    "fault w (CallNewImageSource ref) = None"
    "fault w (CallGetManifest ref) = None"
    "manifests w ref = Some (JObj m)"
    "m ''layers'' = Some (JArr (JObj l # rest))"
    "l ''digest'' = Some (JStr d)"
    by (rule GetLatestLayerDigest_cases)
  obtain name t where ref: "ref = DockerRef name t" by (cases ref)
  from assms(2) obtain f where f: "files w path = Some f"
    by (cases "files w path") (auto simp: UploadFile_def)
  from assms(2) g ref f have
    w': "w' = w \<lparr> blobs := insert (name, contentDigest f) (blobs w),
                   manifests := (manifests w)
                     (ref \<mapsto> JObj (m(''layers'' \<mapsto>
                        JArr ((JObj l # rest) @ [newLayerEntry blob (contentSize f)])))) \<rparr>"
    by (auto simp: UploadFile_def NewImageDestination_def PutBlob_def updateManifest_def
        NewImageSource_def GetManifest_def Unmarshal_def PutManifest_def Let_def
        split: option.splits sum.splits)
  show ?thesis
    using g
    by (simp add: w' GetLatestLayerDigest_def getLatestLayerDigest_def NewImageSource_def
        GetManifest_def Unmarshal_def)
qed

lemma uploads_keep_latest:
  assumes "GetLatestLayerDigest w repo tag = Inr d"
      and "uploadAll w paths repo tag = Some w'"
  shows "GetLatestLayerDigest w' repo tag = Inr d"
  using assms
proof (induction paths arbitrary: w)
  case Nil
  then show ?case by simp
next
  case (Cons path rest)
  from Cons.prems(2) obtain blob w1 where
    u: "UploadFile w path repo tag = (Inr blob, w1)" "uploadAll w1 rest repo tag = Some w'"
    by (auto split: prod.splits sum.splits)
  from upload_keeps_latest [OF Cons.prems(1) u(1)] u(2) show ?case
    by (rule Cons.IH)
qed

text \<open>
  Claim C1. The claim is that after N uploads to the same address and tag the layer
  appended last is the first element of \<open>layers\<close> and \<open>GetLatestLayerDigest\<close> returns the
  digest of the N-th blob. \<open>updateManifest\<close> puts the new entry after the existing ones
  and \<open>getLatestLayerDigest\<close> reads the element at index 0. In the run below a repository
  is bootstrapped, \<open>fileA\<close> (200 bytes) and then \<open>fileB\<close> (50 bytes) are uploaded, and both
  uploads succeed: the layers are those of \<open>fileA\<close> and \<open>fileB\<close> in this order, and
  \<open>GetLatestLayerDigest\<close> returns the digest of \<open>fileA\<close>, the first upload, where the
  claim says that of \<open>fileB\<close>.
\<close>

theorem latest_layer_is_oldest_upload:
  "(let w1 = snd (CreateRepositoryIfNotExist (freshWorld twoFiles)
                    ''hub.example.com/vmimages/disk'' ''latest'');
        w2 = snd (UploadFile w1 ''/data/fileA'' ''hub.example.com/vmimages/disk'' ''latest'');
        w3 = snd (UploadFile w2 ''/data/fileB'' ''hub.example.com/vmimages/disk'' ''latest'')
    in fst (UploadFile w1 ''/data/fileA'' ''hub.example.com/vmimages/disk'' ''latest'')
         = Inr \<lparr> blobDigest = ''sha256:aaaa'', blobSize = 200 \<rparr>
     \<and> fst (UploadFile w2 ''/data/fileB'' ''hub.example.com/vmimages/disk'' ''latest'')
         = Inr \<lparr> blobDigest = ''sha256:bbbb'', blobSize = 50 \<rparr>
     \<and> layersOf w3 (DockerRef ''hub.example.com/vmimages/disk'' ''latest'')
         = Some (JArr [newLayerEntry \<lparr> blobDigest = ''sha256:aaaa'', blobSize = 200 \<rparr> 200,
                       newLayerEntry \<lparr> blobDigest = ''sha256:bbbb'', blobSize = 50 \<rparr> 50])
     \<and> GetLatestLayerDigest w3 ''hub.example.com/vmimages/disk'' ''latest'' = Inr ''sha256:aaaa'')"
proof -
  let ?repo = "''hub.example.com/vmimages/disk''"
  let ?ref = "DockerRef ?repo ''latest''"
  let ?A = "newLayerEntry \<lparr> blobDigest = ''sha256:aaaa'', blobSize = 200 \<rparr> 200"
  let ?B = "newLayerEntry \<lparr> blobDigest = ''sha256:bbbb'', blobSize = 50 \<rparr> 50"
  define w1 where "w1 = snd (CreateRepositoryIfNotExist (freshWorld twoFiles) ?repo ''latest'')"
  define w2 where "w2 = snd (UploadFile w1 ''/data/fileA'' ?repo ''latest'')"
  define w3 where "w3 = snd (UploadFile w2 ''/data/fileB'' ?repo ''latest'')"
  obtain m0 where m0: "bootstrapManifest = JObj m0" "m0 ''layers'' = Some (JArr [])"
    by (simp add: bootstrapManifest_def)
  note c1 = create_latest [OF freshWorld_fields(1) freshWorld_fields(2), of twoFiles]
  have w1: "fault w1 = (\<lambda>c. None)" "files w1 = twoFiles" "manifests w1 ?ref = Some (JObj m0)"
    unfolding w1_def by (simp_all add: c1 freshWorld_fields m0)
  have fA: "files w1 ''/data/fileA''
              = Some \<lparr> contentDigest = ''sha256:aaaa'', contentSize = 200 \<rparr>"
    by (simp add: w1 twoFiles_def)
  note u1 = upload_disk_latest [OF fA w1(1) w1(3) m0(2)]
  have r1: "fst (UploadFile w1 ''/data/fileA'' ?repo ''latest'')
         = Inr \<lparr> blobDigest = ''sha256:aaaa'', blobSize = 200 \<rparr>"
    by (simp add: u1)
  have w2: "fault w2 = (\<lambda>c. None)" "files w2 = twoFiles"
      "manifests w2 ?ref = Some (JObj (m0(''layers'' \<mapsto> JArr [?A])))"
    unfolding w2_def by (simp_all add: u1 w1)
  have fB: "files w2 ''/data/fileB''
              = Some \<lparr> contentDigest = ''sha256:bbbb'', contentSize = 50 \<rparr>"
    by (simp add: w2 twoFiles_def)
  have l2: "(m0(''layers'' \<mapsto> JArr [?A])) ''layers'' = Some (JArr [?A])" by simp
  note u2 = upload_disk_latest [OF fB w2(1) w2(3) l2]
  have r2: "fst (UploadFile w2 ''/data/fileB'' ?repo ''latest'')
         = Inr \<lparr> blobDigest = ''sha256:bbbb'', blobSize = 50 \<rparr>"
    by (simp add: u2)
  have w3f: "fault w3 = (\<lambda>c. None)"
    unfolding w3_def by (simp add: u2 w2)
  have "\<exists>m3. manifests w3 ?ref = Some (JObj m3) \<and> m3 ''layers'' = Some (JArr [?A, ?B])"
    unfolding w3_def by (simp add: u2 w2)
  then obtain m3 where
    m3: "manifests w3 ?ref = Some (JObj m3)" "m3 ''layers'' = Some (JArr [?A, ?B])"
    by blast
  have r3: "layersOf w3 ?ref = Some (JArr [?A, ?B])"
    by (simp add: layersOf_def m3)
  obtain la where la: "?A = JObj la" "la ''digest'' = Some (JStr ''sha256:aaaa'')"
    by (simp add: newLayerEntry_def)
  have l3: "m3 ''layers'' = Some (JArr (JObj la # [?B]))"
    using la(1) m3(2) by simp
  have r4: "GetLatestLayerDigest w3 ?repo ''latest'' = Inr ''sha256:aaaa''"
    by (rule latest_disk_latest [OF w3f m3(1) l3 la(2)])
  from r1 r2 r3 r4 show ?thesis
    unfolding Let_def w1_def [symmetric] w2_def [symmetric] w3_def [symmetric] by blast
qed

text \<open>
  Claim C7. The claim is that, for every address and tag, the second of two calls of
  \<open>CreateRepositoryIfNotExist\<close> sees the repository as existing and pushes nothing. The
  existence check opens \<open>docker://address\<close>, which names the tag \<open>latest\<close>, while the
  bootstrap pushes to \<open>docker://address:tag\<close>. For the tag \<open>latest\<close> the second call
  pushes nothing (\<open>bootstrap_once_for_latest\<close> below). For the tag \<open>v1\<close>, in a world where
  no call fails: the first call pushes the bootstrap manifest; an upload then adds a
  layer; the second call finds no \<open>latest\<close>, pushes the bootstrap manifest again, and the
  manifest of \<open>v1\<close> has no layer any more.
\<close>

theorem bootstrap_repeats_for_other_tag:
  "(let w1 = snd (CreateRepositoryIfNotExist (freshWorld twoFiles)
                    ''hub.example.com/vmimages/disk'' ''v1'');
        w2 = snd (UploadFile w1 ''/data/fileA'' ''hub.example.com/vmimages/disk'' ''v1'');
        w3 = snd (CreateRepositoryIfNotExist w2 ''hub.example.com/vmimages/disk'' ''v1'')
    in fst (CreateRepositoryIfNotExist (freshWorld twoFiles)
              ''hub.example.com/vmimages/disk'' ''v1'') = None
     \<and> copyLog w1 = [DockerRef ''hub.example.com/vmimages/disk'' ''v1'']
     \<and> layersOf w2 (DockerRef ''hub.example.com/vmimages/disk'' ''v1'')
         = Some (JArr [newLayerEntry \<lparr> blobDigest = ''sha256:aaaa'', blobSize = 200 \<rparr> 200])
     \<and> fst (CreateRepositoryIfNotExist w2 ''hub.example.com/vmimages/disk'' ''v1'') = None
     \<and> copyLog w3 = [DockerRef ''hub.example.com/vmimages/disk'' ''v1'',
                      DockerRef ''hub.example.com/vmimages/disk'' ''v1'']
     \<and> layersOf w3 (DockerRef ''hub.example.com/vmimages/disk'' ''v1'') = Some (JArr []))"
proof -
  let ?repo = "''hub.example.com/vmimages/disk''"
  let ?ref = "DockerRef ?repo ''v1''"
  let ?lat = "DockerRef ?repo ''latest''"
  let ?A = "newLayerEntry \<lparr> blobDigest = ''sha256:aaaa'', blobSize = 200 \<rparr> 200"
  define w1 where "w1 = snd (CreateRepositoryIfNotExist (freshWorld twoFiles) ?repo ''v1'')"
  define w2 where "w2 = snd (UploadFile w1 ''/data/fileA'' ?repo ''v1'')"
  define w3 where "w3 = snd (CreateRepositoryIfNotExist w2 ?repo ''v1'')"
  obtain m0 where m0: "bootstrapManifest = JObj m0" "m0 ''layers'' = Some (JArr [])"
    by (simp add: bootstrapManifest_def)
  note c1 = create_v1 [OF freshWorld_fields(1) freshWorld_fields(2), of twoFiles]
  have r1: "fst (CreateRepositoryIfNotExist (freshWorld twoFiles) ?repo ''v1'') = None"
    by (simp add: c1)
  have w1: "fault w1 = (\<lambda>c. None)" "files w1 = twoFiles" "manifests w1 ?ref = Some (JObj m0)"
      "manifests w1 ?lat = None" "copyLog w1 = [?ref]"
    unfolding w1_def by (simp_all add: c1 freshWorld_fields m0)
  have fA: "files w1 ''/data/fileA''
              = Some \<lparr> contentDigest = ''sha256:aaaa'', contentSize = 200 \<rparr>"
    by (simp add: w1 twoFiles_def)
  note u1 = upload_disk_v1 [OF fA w1(1) w1(3) m0(2)]
  have w2: "fault w2 = (\<lambda>c. None)" "manifests w2 ?lat = None" "copyLog w2 = [?ref]"
    unfolding w2_def by (simp_all add: u1 w1)
  have r2: "layersOf w2 ?ref = Some (JArr [?A])"
    unfolding w2_def by (simp add: u1 layersOf_def)
  note c2 = create_v1 [OF w2(1) w2(2)]
  have r3: "fst (CreateRepositoryIfNotExist w2 ?repo ''v1'') = None"
    by (simp add: c2)
  have r4: "copyLog w3 = [?ref, ?ref]"
    unfolding w3_def by (simp add: c2 w2)
  have r5: "layersOf w3 ?ref = Some (JArr [])"
    unfolding w3_def by (simp add: c2 layersOf_def m0)
  from r1 w1(5) r2 r3 r4 r5 show ?thesis
    unfolding Let_def w1_def [symmetric] w2_def [symmetric] w3_def [symmetric] by blast
qed

lemma bootstrap_once_for_latest:
  "(let w1 = snd (CreateRepositoryIfNotExist (freshWorld twoFiles)
                    ''hub.example.com/vmimages/disk'' ''latest'')
    in CreateRepositoryIfNotExist w1 ''hub.example.com/vmimages/disk'' ''latest'' = (None, w1)
     \<and> copyLog w1 = [DockerRef ''hub.example.com/vmimages/disk'' ''latest''])"
proof -
  let ?repo = "''hub.example.com/vmimages/disk''"
  let ?lat = "DockerRef ?repo ''latest''"
  define w1 where "w1 = snd (CreateRepositoryIfNotExist (freshWorld twoFiles) ?repo ''latest'')"
  note c1 = create_latest [OF freshWorld_fields(1) freshWorld_fields(2), of twoFiles]
  have w1: "fault w1 = (\<lambda>c. None)" "manifests w1 ?lat = Some bootstrapManifest"
      "copyLog w1 = [?lat]"
    unfolding w1_def by (simp_all add: c1 freshWorld_fields)
  from create_existing [OF w1(1) w1(2)] w1(3) show ?thesis
    unfolding Let_def w1_def [symmetric] by blast
qed

text \<open>
  Claim C10. When the manifest fetched by \<open>updateManifest\<close> is an object whose field
  \<open>layers\<close> is absent or is not an array, and pushing the manifest succeeds, the update
  returns no error and the registry then holds the fetched manifest with \<open>layers\<close> set to
  an array of one element, its other fields unchanged. The element is the new layer
  entry: an object of the three fields \<open>mediaType\<close> (the compressed tar layer type),
  \<open>digest\<close> (the digest of the blob) and \<open>size\<close> (the size of the file).
\<close>

theorem updateManifest_creates_layers:
  assumes "NewImageSource w ref = Inr src"
      and "GetManifest w src = Inr (JObj m)"
      and "\<forall>layers. m ''layers'' \<noteq> Some (JArr layers)"
      and "fault w (CallPutManifest dest) = None"
  shows "updateManifest w ref blob dest fileSize =
           (None,
            w \<lparr> manifests := (manifests w)
                  (dest \<mapsto>
                     JObj (m(''layers'' \<mapsto>
                        JArr [JObj [''mediaType'' \<mapsto> JStr ''application/vnd.oci.image.layer.v1.tar+gzip'',
                                    ''digest'' \<mapsto> JStr (blobDigest blob),
                                    ''size'' \<mapsto> JNum fileSize]]))) \<rparr>)"
proof -
  have upd: "(case m ''layers'' of
                Some (JArr layers) \<Rightarrow> m(''layers'' \<mapsto> JArr (layers @ [newLayerEntry blob fileSize]))
              | _ \<Rightarrow> m(''layers'' \<mapsto> JArr [newLayerEntry blob fileSize]))
             = m(''layers'' \<mapsto> JArr [newLayerEntry blob fileSize])"
    using assms(3) by (auto split: option.splits json.splits)
  have "updateManifest w ref blob dest fileSize =
           (None, w \<lparr> manifests := (manifests w)
                        (dest \<mapsto> JObj (m(''layers'' \<mapsto> JArr [newLayerEntry blob fileSize]))) \<rparr>)"
    using assms(1,2,4)
    by (simp add: updateManifest_def Unmarshal_def PutManifest_def Let_def upd)
  then show ?thesis
    by (simp only: newLayerEntry_def)
qed

text \<open>The witness: a manifest whose \<open>layers\<close> is \<open>null\<close>, in a world where no call fails,
  and a blob of digest \<open>sha256:aaaa\<close> from a file of 200 bytes.\<close>

theorem updateManifest_creates_layers_witness:
  "NewImageSource
      ((freshWorld Map.empty)
         \<lparr> manifests := [DockerRef ''hub.example.com/vmimages/disk'' ''latest''
                           \<mapsto> JObj [''schemaVersion'' \<mapsto> JNum 2, ''layers'' \<mapsto> JNull]] \<rparr>)
      (DockerRef ''hub.example.com/vmimages/disk'' ''latest'')
     = Inr \<lparr> sourceRef = DockerRef ''hub.example.com/vmimages/disk'' ''latest'',
             sourceManifest = JObj [''schemaVersion'' \<mapsto> JNum 2, ''layers'' \<mapsto> JNull] \<rparr>
   \<and> (\<forall>layers. [''schemaVersion'' \<mapsto> JNum 2, ''layers'' \<mapsto> JNull] ''layers''
                  \<noteq> Some (JArr layers))
   \<and> fst (updateManifest
        ((freshWorld Map.empty)
           \<lparr> manifests := [DockerRef ''hub.example.com/vmimages/disk'' ''latest''
                             \<mapsto> JObj [''schemaVersion'' \<mapsto> JNum 2, ''layers'' \<mapsto> JNull]] \<rparr>)
        (DockerRef ''hub.example.com/vmimages/disk'' ''latest'')
        \<lparr> blobDigest = ''sha256:aaaa'', blobSize = 200 \<rparr>
        (DockerRef ''hub.example.com/vmimages/disk'' ''latest'') 200) = None
   \<and> layersOf (snd (updateManifest
        ((freshWorld Map.empty)
           \<lparr> manifests := [DockerRef ''hub.example.com/vmimages/disk'' ''latest''
                             \<mapsto> JObj [''schemaVersion'' \<mapsto> JNum 2, ''layers'' \<mapsto> JNull]] \<rparr>)
        (DockerRef ''hub.example.com/vmimages/disk'' ''latest'')
        \<lparr> blobDigest = ''sha256:aaaa'', blobSize = 200 \<rparr>
        (DockerRef ''hub.example.com/vmimages/disk'' ''latest'') 200))
       (DockerRef ''hub.example.com/vmimages/disk'' ''latest'')
     = Some (JArr [JObj [''mediaType'' \<mapsto> JStr ''application/vnd.oci.image.layer.v1.tar+gzip'',
                         ''digest'' \<mapsto> JStr ''sha256:aaaa'',
                         ''size'' \<mapsto> JNum 200]])"
proof -
  let ?ref = "DockerRef ''hub.example.com/vmimages/disk'' ''latest''"
  let ?m = "[''schemaVersion'' \<mapsto> JNum 2, ''layers'' \<mapsto> JNull]"
  let ?w = "(freshWorld Map.empty) \<lparr> manifests := [?ref \<mapsto> JObj ?m] \<rparr>"
  let ?src = "\<lparr> sourceRef = ?ref, sourceManifest = JObj ?m \<rparr>"
  let ?blob = "\<lparr> blobDigest = ''sha256:aaaa'', blobSize = 200 \<rparr>"
  have h1: "NewImageSource ?w ?ref = Inr ?src"
    by (simp add: NewImageSource_def freshWorld_def)
  have h2: "GetManifest ?w ?src = Inr (JObj ?m)"
    by (simp add: GetManifest_def freshWorld_def)
  have h3: "\<forall>layers. ?m ''layers'' \<noteq> Some (JArr layers)"
    by simp
  have h4: "fault ?w (CallPutManifest ?ref) = None"
    by (simp add: freshWorld_def)
  note r = updateManifest_creates_layers [OF h1 h2 h3 h4, of ?blob 200]
  have r1: "fst (updateManifest ?w ?ref ?blob ?ref 200) = None"
    by (simp add: r)
  have r2: "layersOf (snd (updateManifest ?w ?ref ?blob ?ref 200)) ?ref
      = Some (JArr [JObj [''mediaType'' \<mapsto> JStr ''application/vnd.oci.image.layer.v1.tar+gzip'',
                          ''digest'' \<mapsto> JStr ''sha256:aaaa'',
                          ''size'' \<mapsto> JNum 200]])"
    by (simp add: r layersOf_def)
  from h1 h3 r1 r2 show ?thesis by blast
qed

end
